theory Spec2Isabelle
  imports Complex_Main
begin

section \<open>JavaScript numbers\<close>

text \<open>
  Every number of \<^verbatim>\<open>task1.js\<close> is an IEEE 754 binary64 value. A finite value is
  kept as the number it denotes (a dyadic rational); the two infinities and NaN are
  constructors of their own. The sign of zero is not kept: the program only adds,
  subtracts, multiplies, compares and takes absolute values and maxima, and none of these
  can tell \<open>-0\<close> from \<open>+0\<close>.
\<close>

datatype double = Fin real | PInf | NInf | NaN

function bit_length :: "nat \<Rightarrow> nat" where
  "bit_length n = (if n = 0 then 0 else Suc (bit_length (n div 2)))"
  by pat_completeness auto
termination
  by (relation "measure (\<lambda>n. n)") auto

declare bit_length.simps [simp del]

definition pow2 :: "int \<Rightarrow> real" where
  "pow2 k = (if 0 \<le> k then 2 ^ nat k else 1 / 2 ^ nat (- k))"

text \<open>The binary exponent of a positive number: \<open>pow2 e \<le> q < pow2 (e + 1)\<close>.\<close>

definition ilog2 :: "real \<Rightarrow> int" where
  "ilog2 q =
     (if 1 \<le> q then int (bit_length (nat \<lfloor>q\<rfloor>)) - 1
      else - int (bit_length (nat (\<lceil>1 / q\<rceil> - 1))))"

definition round_half_even :: "real \<Rightarrow> int" where
  "round_half_even x =
     (if x - of_int \<lfloor>x\<rfloor> < 1 / 2 then \<lfloor>x\<rfloor>
      else if 1 / 2 < x - of_int \<lfloor>x\<rfloor> then \<lfloor>x\<rfloor> + 1
      else if even \<lfloor>x\<rfloor> then \<lfloor>x\<rfloor> else \<lfloor>x\<rfloor> + 1)"

text \<open>
  Rounding of an exact result to binary64, to nearest with ties to even. A value of binary
  exponent \<open>e\<close> has 53 significant bits, so its neighbours are \<open>pow2 (e - 52)\<close> apart;
  exponents stop at \<open>-1022\<close> (below it the subnormal spacing \<open>pow2 (-1074)\<close> stays),
  and a rounded magnitude of \<open>2 ^ 1024\<close> or more overflows to an infinity.
\<close>

definition round_to_spacing :: "int \<Rightarrow> real \<Rightarrow> real" where
  "round_to_spacing e a = of_int (round_half_even (a / pow2 (e - 52))) * pow2 (e - 52)"

definition overflow_threshold :: real where
  "overflow_threshold = 2 ^ 1024"

definition finite_or_infinite :: "real \<Rightarrow> double" where
  "finite_or_infinite r =
     (if overflow_threshold \<le> \<bar>r\<bar> then (if 0 < r then PInf else NInf) else Fin r)"

definition to_double :: "real \<Rightarrow> double" where
  "to_double q =
     (if q = 0 then Fin 0
      else finite_or_infinite (sgn q * round_to_spacing (max (ilog2 \<bar>q\<bar>) (- 1022)) \<bar>q\<bar>))"

fun dneg :: "double \<Rightarrow> double" where
  "dneg (Fin a) = Fin (- a)"
| "dneg PInf = NInf"
| "dneg NInf = PInf"
| "dneg NaN = NaN"

fun dadd :: "double \<Rightarrow> double \<Rightarrow> double" where
  "dadd NaN _ = NaN"
| "dadd _ NaN = NaN"
| "dadd PInf NInf = NaN"
| "dadd NInf PInf = NaN"
| "dadd PInf _ = PInf"
| "dadd _ PInf = PInf"
| "dadd NInf _ = NInf"
| "dadd _ NInf = NInf"
| "dadd (Fin a) (Fin b) = to_double (a + b)"

definition dsub :: "double \<Rightarrow> double \<Rightarrow> double" where
  "dsub x y = dadd x (dneg y)"

fun dsign :: "double \<Rightarrow> int" where
  "dsign (Fin a) = (if 0 < a then 1 else if a < 0 then - 1 else 0)"
| "dsign PInf = 1"
| "dsign NInf = - 1"
| "dsign NaN = 0"

fun dmul :: "double \<Rightarrow> double \<Rightarrow> double" where
  "dmul (Fin a) (Fin b) = to_double (a * b)"
| "dmul x y =
     (if dsign x * dsign y = 0 then NaN
      else if 0 < dsign x * dsign y then PInf else NInf)"

fun dabs :: "double \<Rightarrow> double" where
  "dabs (Fin a) = Fin \<bar>a\<bar>"
| "dabs PInf = PInf"
| "dabs NInf = PInf"
| "dabs NaN = NaN"

fun dless :: "double \<Rightarrow> double \<Rightarrow> bool" where
  "dless NaN _ = False"
| "dless _ NaN = False"
| "dless (Fin a) (Fin b) = (a < b)"
| "dless _ NInf = False"
| "dless NInf _ = True"
| "dless PInf _ = False"
| "dless (Fin a) PInf = True"

text \<open>\<^verbatim>\<open>Math.max(...xs)\<close>: NaN as soon as one argument is NaN, \<open>-Infinity\<close> for no argument.\<close>

definition max2 :: "double \<Rightarrow> double \<Rightarrow> double" where
  "max2 x y = (if x = NaN \<or> y = NaN then NaN else if dless x y then y else x)"

definition Math_max :: "double list \<Rightarrow> double" where
  "Math_max xs = foldl max2 NInf xs"

definition Math_abs :: "double \<Rightarrow> double" where
  "Math_abs x = dabs x"

section \<open>The data model of \<^verbatim>\<open>task1.js\<close>\<close>

text \<open>
  A JavaScript object with numeric properties is a map from property names to numbers.
  Reading a property that is absent gives \<^verbatim>\<open>undefined\<close>, which arithmetic turns
  into NaN.
\<close>

type_synonym Context = "string \<rightharpoonup> double"

definition field :: "Context \<Rightarrow> string \<Rightarrow> double" where
  "field ctx k = (case ctx k of Some v \<Rightarrow> v | None \<Rightarrow> NaN)"

text \<open>Object spread \<^verbatim>\<open>{...x}\<close>: an \<^verbatim>\<open>undefined\<close> operand contributes no property.\<close>

definition spread :: "Context option \<Rightarrow> Context" where
  "spread x = (case x of Some m \<Rightarrow> m | None \<Rightarrow> Map.empty)"

text \<open>The formulas of the calculated attributes (lines 22, 30, 42 and 50).\<close>

definition disposalCost_formula :: "Context \<Rightarrow> double" where
  "disposalCost_formula ctx =
     dadd (dmul (field ctx ''materialCost'') (to_double (8 / 10))) (field ctx ''co2Cost'')"

definition co2Cost_formula :: "Context \<Rightarrow> double" where
  "co2Cost_formula ctx =
     dadd (dmul (field ctx ''energyCost'') (to_double (1 / 10)))
          (dmul (field ctx ''disposalCost'') (to_double (5 / 100)))"

definition logisticsCost_formula :: "Context \<Rightarrow> double" where
  "logisticsCost_formula ctx = dadd (field ctx ''transportCost'') (field ctx ''ecoFees'')"

definition ecoFees_formula :: "Context \<Rightarrow> double" where
  "ecoFees_formula ctx =
     dadd (dmul (field ctx ''logisticsCost'') (to_double (1 / 10)))
          (dmul (field ctx ''co2Cost'') (to_double (5 / 100)))"

datatype attribute = Input double | Calculated "Context \<Rightarrow> double"

type_synonym block = "string \<rightharpoonup> attribute"

definition Production :: block where
  "Production =
     [''materialCost'' \<mapsto> Input (Fin 120),
      ''energyCost'' \<mapsto> Input (Fin 60),
      ''disposalCost'' \<mapsto> Calculated disposalCost_formula,
      ''co2Cost'' \<mapsto> Calculated co2Cost_formula]"

definition Logistics :: block where
  "Logistics =
     [''transportCost'' \<mapsto> Input (Fin 35),
      ''logisticsCost'' \<mapsto> Calculated logisticsCost_formula,
      ''ecoFees'' \<mapsto> Calculated ecoFees_formula]"

definition blocks :: "string \<rightharpoonup> block" where
  "blocks = [''Production'' \<mapsto> Production, ''Logistics'' \<mapsto> Logistics]"

text \<open>A scenario gives, per block name, the input values it sets (lines 62 to 72).\<close>

type_synonym scenario = "string \<rightharpoonup> Context"

definition Base :: scenario where
  "Base =
     [''Production'' \<mapsto> [''materialCost'' \<mapsto> Fin 120, ''energyCost'' \<mapsto> Fin 60],
      ''Logistics'' \<mapsto> [''transportCost'' \<mapsto> Fin 35]]"

definition HighEnergyPrices :: scenario where
  "HighEnergyPrices =
     [''Production'' \<mapsto> [''energyCost'' \<mapsto> Fin 90],
      ''Logistics'' \<mapsto> [''transportCost'' \<mapsto> Fin 40]]"

text \<open>
  \<^verbatim>\<open>scenarios[scenarioName]\<close>. A name that is no own property of the object is
  \<^verbatim>\<open>undefined\<close> (\<open>None\<close>); the few names inherited from \<^verbatim>\<open>Object.prototype\<close>
  give an object without \<^verbatim>\<open>Production\<close> and \<^verbatim>\<open>Logistics\<close>, whose spreads add
  nothing, so they behave as \<open>None\<close> does.
\<close>

definition scenarios :: "string \<rightharpoonup> scenario" where
  "scenarios = [''Base'' \<mapsto> Base, ''HighEnergyPrices'' \<mapsto> HighEnergyPrices]"

section \<open>The simulation engine\<close>

text \<open>
  What \<^verbatim>\<open>console.log\<close> has printed so far is part of the state. The only line
  \<^verbatim>\<open>runSimulation\<close> prints is \<^verbatim>\<open>Converged in ${iteration + 1} iterations.\<close>, kept as
  \<open>Converged_in (iteration + 1)\<close>.
\<close>

datatype line = Converged_in nat

type_synonym console = "line list"

text \<open>Lines 132 to 139: the context a run starts from.\<close>

definition initial_context :: Context where
  "initial_context =
     (spread (Base ''Production'') ++ spread (Base ''Logistics''))
       (''co2Cost'' \<mapsto> Fin 0, ''disposalCost'' \<mapsto> Fin 0,
        ''logisticsCost'' \<mapsto> Fin 0, ''ecoFees'' \<mapsto> Fin 0)"

text \<open>Lines 141 to 144: the overrides of the named scenario.\<close>

definition apply_overrides :: "string \<Rightarrow> Context \<Rightarrow> Context" where
  "apply_overrides scenarioName context =
     (if scenarioName \<noteq> ''Base'' then
        (case scenarios scenarioName of
           Some sc \<Rightarrow> context ++ spread (sc ''Production'') ++ spread (sc ''Logistics'')
         | None \<Rightarrow> context)
      else context)"

text \<open>
  Lines 152 to 158: one pass over the calculated attributes, each assignment in turn;
  \<^verbatim>\<open>blocks.Production.disposalCost.formula\<close> is \<open>disposalCost_formula\<close>, and so on.
\<close>

definition recalculate :: "Context \<Rightarrow> Context" where
  "recalculate context =
     (let context = context(''disposalCost'' \<mapsto> disposalCost_formula context);
          context = context(''co2Cost'' \<mapsto> co2Cost_formula context);
          context = context(''logisticsCost'' \<mapsto> logisticsCost_formula context);
          context = context(''ecoFees'' \<mapsto> ecoFees_formula context)
      in context)"

text \<open>Lines 161 to 166.\<close>

definition deltas :: "Context \<Rightarrow> Context \<Rightarrow> double list" where
  "deltas context previous =
     [Math_abs (dsub (field context ''disposalCost'') (field previous ''disposalCost'')),
      Math_abs (dsub (field context ''co2Cost'') (field previous ''co2Cost'')),
      Math_abs (dsub (field context ''logisticsCost'') (field previous ''logisticsCost'')),
      Math_abs (dsub (field context ''ecoFees'') (field previous ''ecoFees''))]"

text \<open>
  Lines 149 to 174: the \<^verbatim>\<open>for\<close> loop. The counter \<^verbatim>\<open>iteration\<close> takes the values
  0, 1, 2, ... and \<^verbatim>\<open>maxIterations\<close> is an iteration count, so both are natural
  numbers here. A JavaScript number counts exactly up to \<open>2 ^ 53\<close>; below that, a cap
  that is no natural number makes the loop run as the least natural number not below it
  does (as 0 when it is negative or NaN).
\<close>

function loop :: "nat \<Rightarrow> nat \<Rightarrow> double \<Rightarrow> Context \<Rightarrow> console \<Rightarrow> Context \<times> console" where
  "loop iteration maxIterations threshold context out =
     (if iteration < maxIterations then
        (let previous = context;
             context = recalculate context
         in if dless (Math_max (deltas context previous)) threshold
            then (context, out @ [Converged_in (iteration + 1)])
            else loop (iteration + 1) maxIterations threshold context out)
      else (context, out))"
  by pat_completeness auto
termination
  by (relation "measure (\<lambda>(iteration, maxIterations, _). maxIterations - iteration)") auto

declare loop.simps [simp del]

text \<open>
  \<^verbatim>\<open>runSimulation(scenarioName = 'Base', maxIterations = 100, threshold = 0.001)\<close>,
  lines 128 to 177: the loop runs on the context of lines 132 to 144 (\<open>start_context\<close>)
  and the function returns the context; the console is threaded through.
\<close>

definition start_context :: "string \<Rightarrow> Context" where
  "start_context scenarioName = apply_overrides scenarioName initial_context"

definition runSimulation :: "string \<Rightarrow> nat \<Rightarrow> double \<Rightarrow> console \<Rightarrow> Context \<times> console" where
  "runSimulation scenarioName maxIterations threshold out =
     loop 0 maxIterations threshold (start_context scenarioName) out"

definition default_maxIterations :: nat where
  "default_maxIterations = 100"

definition default_threshold :: double where
  "default_threshold = to_double (1 / 1000)"

section \<open>Notions used to state the properties\<close>

text \<open>The context after \<open>k\<close> passes of the loop body.\<close>

definition iterate :: "nat \<Rightarrow> Context \<Rightarrow> Context" where
  "iterate k context = (recalculate ^^ k) context"

text \<open>The test of line 170, on the context after a pass and the one before it.\<close>

definition converged :: "double \<Rightarrow> Context \<Rightarrow> Context \<Rightarrow> bool" where
  "converged threshold context previous =
     dless (Math_max (deltas context previous)) threshold"

text \<open>The attributes the loop body assigns, in the order of lines 153 to 158.\<close>

definition calculated_attributes :: "string list" where
  "calculated_attributes = [''disposalCost'', ''co2Cost'', ''logisticsCost'', ''ecoFees'']"

text \<open>
  The two cyclic groups of the model: disposalCost and co2Cost depend on each other
  (lines 22 and 30), and so do logisticsCost and ecoFees (lines 42 and 50); ecoFees reads
  co2Cost, and nothing of the first pair reads the second. The largest absolute difference
  over the members of a group, between the context after a pass and the one before it.
\<close>

definition production_cycle :: "string list" where
  "production_cycle = [''disposalCost'', ''co2Cost'']"

definition logistics_cycle :: "string list" where
  "logistics_cycle = [''logisticsCost'', ''ecoFees'']"

definition group_delta :: "string list \<Rightarrow> Context \<Rightarrow> Context \<Rightarrow> double" where
  "group_delta members context previous =
     Math_max (map (\<lambda>a. Math_abs (dsub (field context a) (field previous a))) members)"

definition attribute_names :: "string set" where
  "attribute_names =
     {''materialCost'', ''energyCost'', ''transportCost'',
      ''co2Cost'', ''disposalCost'', ''logisticsCost'', ''ecoFees''}"

text \<open>
  The default of an input attribute (\<^verbatim>\<open>blocks[b][a].value\<close> where the type is
  \<^verbatim>\<open>'input'\<close>) and the value a scenario sets for it (\<^verbatim>\<open>scenarios[s][b][a]\<close>).
\<close>

definition default_of :: "string \<Rightarrow> string \<Rightarrow> double option" where
  "default_of b a =
     (case blocks b of
        Some blk \<Rightarrow> (case blk a of Some (Input v) \<Rightarrow> Some v | _ \<Rightarrow> None)
      | None \<Rightarrow> None)"

definition override_of :: "string \<Rightarrow> string \<Rightarrow> string \<Rightarrow> double option" where
  "override_of s b a = (case scenarios s of Some sc \<Rightarrow> spread (sc b) a | None \<Rightarrow> None)"

text \<open>A printed value \<open>q\<close> with three decimals stands for a number within \<open>0.0005\<close> of it.\<close>

fun close_to :: "double \<Rightarrow> real \<Rightarrow> bool" where
  "close_to (Fin v) q = (\<bar>v - q\<bar> < 5 / 10000)"
| "close_to _ q = False"

text \<open>A context with the seven attributes of the model.\<close>

definition ctx_of ::
  "double \<Rightarrow> double \<Rightarrow> double \<Rightarrow> double \<Rightarrow> double \<Rightarrow> double \<Rightarrow> double \<Rightarrow> Context" where
  "ctx_of materialCost energyCost transportCost co2Cost disposalCost logisticsCost ecoFees =
     [''materialCost'' \<mapsto> materialCost, ''energyCost'' \<mapsto> energyCost,
      ''transportCost'' \<mapsto> transportCost, ''co2Cost'' \<mapsto> co2Cost,
      ''disposalCost'' \<mapsto> disposalCost, ''logisticsCost'' \<mapsto> logisticsCost,
      ''ecoFees'' \<mapsto> ecoFees]"

text \<open>
  The contexts of the two runs of the script (lines 85 to 89) after each pass, as exact
  binary64 values: \<open>base_6\<close> and \<open>high_6\<close> are the objects printed at lines 93 to 101
  and 105 to 113.
\<close>

abbreviation base_0 :: Context where
  "base_0 \<equiv>
     ctx_of (Fin 120) (Fin 60) (Fin 35)
       (Fin 0)
       (Fin 0)
       (Fin 0)
       (Fin 0)"

abbreviation base_1 :: Context where
  "base_1 \<equiv>
     ctx_of (Fin 120) (Fin 60) (Fin 35)
       (Fin (3039929748475085 / 281474976710656))
       (Fin 96)
       (Fin 35)
       (Fin (4548635623644201 / 1125899906842624))"

abbreviation base_2 :: Context where
  "base_2 \<equiv>
     ctx_of (Fin 120) (Fin 60) (Fin 35)
       (Fin (3191926235898839 / 281474976710656))
       (Fin (7515381878174515 / 70368744177664))
       (Fin (5494391545392005 / 140737488355328))
       (Fin (1258474620873343 / 281474976710656))"

abbreviation base_3 :: Context where
  "base_3 \<equiv>
     ctx_of (Fin 120) (Fin 60) (Fin 35)
       (Fin (3199526060270027 / 281474976710656))
       (Fin (3776690500015227 / 35184372088832))
       (Fin (86797646919893 / 2199023255552))
       (Fin (5083944734352527 / 1125899906842624))"

abbreviation base_4 :: Context where
  "base_4 \<equiv>
     ctx_of (Fin 120) (Fin 60) (Fin 35)
       (Fin (1599953025744293 / 140737488355328))
       (Fin (7555280956123251 / 70368744177664))
       (Fin (2780652592115273 / 70368744177664))
       (Fin (2544512678841077 / 562949953421312))"

abbreviation base_5 :: Context where
  "base_5 \<equiv>
     ctx_of (Fin 120) (Fin 60) (Fin 35)
       (Fin (1599962525524757 / 140737488355328))
       (Fin (3777687976963945 / 35184372088832))
       (Fin (5561940262146749 / 140737488355328))
       (Fin (2544768609963651 / 562949953421312))"

abbreviation base_6 :: Context where
  "base_6 \<equiv>
     ctx_of (Fin 120) (Fin 60) (Fin 35)
       (Fin (6399852002055121 / 562949953421312))
       (Fin (3777690351909061 / 35184372088832))
       (Fin (5562004244927393 / 140737488355328))
       (Fin (5089588596147427 / 1125899906842624))"

abbreviation base_7 :: Context where
  "base_7 \<equiv>
     ctx_of (Fin 120) (Fin 60) (Fin 35)
       (Fin (3199926048526463 / 281474976710656))
       (Fin (3777690470656317 / 35184372088832))
       (Fin (1390502666738727 / 35184372088832))
       (Fin (5089593743269219 / 1125899906842624))"

abbreviation high_0 :: Context where
  "high_0 \<equiv>
     ctx_of (Fin 120) (Fin 90) (Fin 40)
       (Fin 0)
       (Fin 0)
       (Fin 0)
       (Fin 0)"

abbreviation high_1 :: Context where
  "high_1 \<equiv>
     ctx_of (Fin 120) (Fin 90) (Fin 40)
       (Fin (3884354678607053 / 281474976710656))
       (Fin 96)
       (Fin 40)
       (Fin (5280470563091907 / 1125899906842624))"

abbreviation high_2 :: Context where
  "high_2 \<equiv>
     ctx_of (Fin 120) (Fin 90) (Fin 40)
       (Fin (8157144825074811 / 562949953421312))
       (Fin (7726488110707507 / 70368744177664))
       (Fin (786194794324951 / 17592186044416))
       (Fin (182730036443349 / 35184372088832))"

abbreviation high_3 :: Context where
  "high_3 \<equiv>
     ctx_of (Fin 120) (Fin 90) (Fin 40)
       (Fin (4088283299233923 / 281474976710656))
       (Fin (7775042544190095 / 70368744177664))
       (Fin (1590104919996629 / 35184372088832))
       (Fin (2952996201917999 / 562949953421312))"

abbreviation high_4 :: Context where
  "high_4 \<equiv>
     ctx_of (Fin 120) (Fin 90) (Fin 40)
       (Fin (4088768843568749 / 281474976710656))
       (Fin (7777470265864225 / 70368744177664))
       (Fin (1591937146173155 / 35184372088832))
       (Fin (2955976318233923 / 562949953421312))"

abbreviation high_5 :: Context where
  "high_5 \<equiv>
     ctx_of (Fin 120) (Fin 90) (Fin 40)
       (Fin (2044396560392745 / 140737488355328))
       (Fin (7777591651947931 / 70368744177664))
       (Fin (6368493613771601 / 140737488355328))
       (Fin (5912553515174379 / 1125899906842624))"

abbreviation high_6 :: Context where
  "high_6 \<equiv>
     ctx_of (Fin 120) (Fin 90) (Fin 40)
       (Fin (4088794334646327 / 281474976710656))
       (Fin (1944399430313029 / 17592186044416))
       (Fin (6368568723609917 / 140737488355328))
       (Fin (369538365363575 / 70368744177664))"

section \<open>Evaluating binary64 arithmetic\<close>

lemma bit_length_0 [simp]: "bit_length 0 = 0"
  by (simp add: bit_length.simps)

lemma bit_length_1 [simp]: "bit_length 1 = 1" "bit_length (Suc 0) = 1"
  by (simp_all add: bit_length.simps)

lemma bit_length_Bit0 [simp]: "bit_length (numeral (Num.Bit0 k)) = Suc (bit_length (numeral k))"
  by (subst bit_length.simps) simp

lemma bit_length_Bit1 [simp]: "bit_length (numeral (Num.Bit1 k)) = Suc (bit_length (numeral k))"
  by (subst bit_length.simps) simp

lemma finite_or_infinite_small: "\<bar>r\<bar> < 1000000 \<Longrightarrow> finite_or_infinite r = Fin r"
  by (simp add: finite_or_infinite_def overflow_threshold_def)

lemma Let_Fin: "Let (Fin x) f = f (Fin x)"
  by simp

lemmas dbl_eval = to_double_def round_to_spacing_def ilog2_def round_half_even_def pow2_def
  finite_or_infinite_small Let_Fin

lemma lit_eval:
  "to_double (8 / 10) = Fin (3602879701896397 / 4503599627370496)"
  "to_double (1 / 10) = Fin (3602879701896397 / 36028797018963968)"
  "to_double (5 / 100) = Fin (3602879701896397 / 72057594037927936)"
  "to_double (1 / 1000) = Fin (1152921504606847 / 1152921504606846976)"
  by (simp_all add: dbl_eval)

text \<open>
  The rounding at its edges: a tie goes to the even neighbour, the largest finite value is
  \<open>2 ^ 1024 - 2 ^ 971\<close>, half a spacing more overflows, and below \<open>2 ^ - 1022\<close> the
  spacing stays \<open>2 ^ - 1074\<close>.
\<close>

lemma to_double_examples:
  "to_double (2 ^ 53 + 1) = Fin (2 ^ 53)"
  "to_double (2 ^ 53 + 3) = Fin (2 ^ 53 + 4)"
  "to_double (- (1 / 3)) = Fin (- (6004799503160661 / 2 ^ 54))"
  "to_double (2 ^ 1024 - 2 ^ 970 - 1) = Fin (2 ^ 1024 - 2 ^ 971)"
  "to_double (2 ^ 1024 - 2 ^ 970) = PInf"
  "to_double (3 / 2 ^ 1075) = Fin (1 / 2 ^ 1073)"
  "to_double (1 / 2 ^ 1075) = Fin 0"
  by (simp_all add: to_double_def round_to_spacing_def ilog2_def round_half_even_def pow2_def
      finite_or_infinite_def overflow_threshold_def)

section \<open>The rounding is to a nearest binary64 value\<close>

text \<open>
  What \<open>to_double\<close> returns, when finite, is a binary64 value (at most 53 significant
  bits at an exponent from \<open>-1022\<close> on, below \<open>2 ^ 1024\<close>) and is at most half a
  spacing away from the exact number.
\<close>

lemma bit_length_bounds:
  "0 < n \<Longrightarrow> 2 ^ (bit_length n - 1) \<le> n \<and> n < 2 ^ bit_length n"
proof (induction n rule: bit_length.induct)
  case (1 n)
  show ?case
  proof (cases "n div 2 = 0")
    case True
    with "1.prems" have "n = 1" by (simp add: div_eq_0_iff)
    then show ?thesis by simp
  next
    case False
    then have pos: "0 < n div 2" by simp
    from "1.prems" have unfold: "bit_length n = Suc (bit_length (n div 2))"
      by (subst bit_length.simps) simp
    from pos have "bit_length (n div 2) \<noteq> 0"
      by (subst bit_length.simps) simp
    then obtain b where b: "bit_length (n div 2) = Suc b"
      by (cases "bit_length (n div 2)") auto
    from "1.IH" "1.prems" pos have ih: "2 ^ b \<le> n div 2" "n div 2 < 2 ^ Suc b"
      by (simp_all add: b)
    have "2 * 2 ^ b \<le> n" using ih(1) by linarith
    moreover have "n < 2 * 2 ^ Suc b" using ih(2) by linarith
    ultimately show ?thesis by (simp add: unfold b)
  qed
qed

lemma pow2_pos: "0 < pow2 k"
  by (simp add: pow2_def)

lemma pow2_of_nat: "pow2 (int n) = 2 ^ n"
  by (simp add: pow2_def)

lemma pow2_neg_nat: "pow2 (- int n) = 1 / 2 ^ n"
  by (auto simp: pow2_def)

lemma real_pow2_le: "2 ^ b \<le> n \<Longrightarrow> (2::real) ^ b \<le> real n"
  using of_nat_le_iff [of "2 ^ b" n, where ?'a = real] by simp

lemma real_less_pow2: "n < 2 ^ b \<Longrightarrow> real n + 1 \<le> 2 ^ b"
  using of_nat_le_iff [of "Suc n" "2 ^ b", where ?'a = real] by simp

lemma bit_length_Suc:
  assumes "0 < n"
  obtains b where "bit_length n = Suc b" "(2::real) ^ b \<le> real n" "real n + 1 \<le> 2 ^ Suc b"
proof -
  from assms have "bit_length n \<noteq> 0"
    by (subst bit_length.simps) simp
  then obtain b where b: "bit_length n = Suc b"
    by (cases "bit_length n") auto
  from bit_length_bounds [OF assms] have "2 ^ b \<le> n" "n < 2 ^ Suc b"
    unfolding b by simp_all
  then have "(2::real) ^ b \<le> real n" "real n + 1 \<le> 2 ^ Suc b"
    by (simp_all only: real_pow2_le real_less_pow2)
  with b show thesis by (rule that)
qed

lemma ilog2_bounds:
  assumes "0 < q"
  shows "pow2 (ilog2 q) \<le> q \<and> q < pow2 (ilog2 q + 1)"
proof (cases "1 \<le> q")
  case True
  define n where "n = nat \<lfloor>q\<rfloor>"
  have fl: "1 \<le> \<lfloor>q\<rfloor>"
    using True by (simp add: le_floor_iff)
  then have rn: "real n = of_int \<lfloor>q\<rfloor>" and pos: "0 < n"
    unfolding n_def by simp_all
  have lo: "real n \<le> q"
    unfolding rn by (rule of_int_floor_le)
  have hi: "q < real n + 1"
    unfolding rn by (rule real_of_int_floor_add_one_gt)
  from pos obtain b where b: "bit_length n = Suc b" "(2::real) ^ b \<le> real n"
      "real n + 1 \<le> 2 ^ Suc b"
    by (rule bit_length_Suc)
  have e: "ilog2 q = int b"
    unfolding ilog2_def n_def [symmetric] b(1) using True by simp
  have "pow2 (ilog2 q) = 2 ^ b"
    unfolding e by (rule pow2_of_nat)
  moreover have "pow2 (ilog2 q + 1) = 2 ^ Suc b"
    using pow2_of_nat [of "Suc b"] unfolding e by (simp add: add.commute)
  ultimately show ?thesis
    using lo hi b(2,3) by linarith
next
  case False
  with assms have q: "0 < q" "q < 1" by simp_all
  define m where "m = nat (\<lceil>1 / q\<rceil> - 1)"
  have "1 < 1 / q" using q by simp
  then have one: "1 < \<lceil>1 / q\<rceil>"
    by (simp add: less_ceiling_iff)
  have rm: "real m = of_int (\<lceil>1 / q\<rceil> - 1)"
    unfolding m_def by (rule of_nat_nat) (use one in linarith)
  have pos: "0 < m"
    unfolding m_def zero_less_nat_eq using one by linarith
  have lo: "real m < 1 / q"
    unfolding rm using ceiling_correct [of "1 / q"] by simp
  have hi: "1 / q \<le> real m + 1"
    unfolding rm using ceiling_correct [of "1 / q"] by simp
  from pos obtain b where b: "bit_length m = Suc b" "(2::real) ^ b \<le> real m"
      "real m + 1 \<le> 2 ^ Suc b"
    by (rule bit_length_Suc)
  have e: "ilog2 q = - int (Suc b)"
    unfolding ilog2_def m_def [symmetric] b(1) using False by simp
  from lo b(2) have "(2::real) ^ b < 1 / q" by linarith
  then have up: "q < 1 / 2 ^ b"
    using q(1) by (simp add: field_simps)
  from hi b(3) have "1 / q \<le> 2 ^ Suc b" by linarith
  then have down: "1 / 2 ^ Suc b \<le> q"
    using q(1) by (simp add: field_simps)
  have "pow2 (ilog2 q) = 1 / 2 ^ Suc b"
    unfolding e by (rule pow2_neg_nat)
  moreover have "pow2 (ilog2 q + 1) = 1 / 2 ^ b"
    using pow2_neg_nat [of b] unfolding e by simp
  ultimately show ?thesis
    using up down by simp
qed

lemma round_half_even_nearest: "\<bar>of_int (round_half_even x) - x\<bar> \<le> 1 / 2"
proof -
  have "of_int \<lfloor>x\<rfloor> \<le> x" "x < of_int \<lfloor>x\<rfloor> + 1"
    by (rule of_int_floor_le, rule real_of_int_floor_add_one_gt)
  then show ?thesis
    unfolding round_half_even_def by (simp add: abs_le_iff)
qed

lemma to_double_error:
  assumes "to_double q = Fin r" "q \<noteq> 0"
  shows "\<bar>r - q\<bar> \<le> pow2 (max (ilog2 \<bar>q\<bar>) (- 1022) - 52) / 2"
proof -
  define u where "u = pow2 (max (ilog2 \<bar>q\<bar>) (- 1022) - 52)"
  have u: "0 < u" by (simp add: u_def pow2_pos)
  define k where "k = round_half_even (\<bar>q\<bar> / u)"
  have "finite_or_infinite (sgn q * (of_int k * u)) = Fin r"
    using assms unfolding to_double_def round_to_spacing_def u_def k_def by simp
  then have r: "r = sgn q * (of_int k * u)"
    unfolding finite_or_infinite_def by (simp split: if_splits)
  have "\<bar>r - q\<bar> = \<bar>of_int k * u - \<bar>q\<bar>\<bar>"
  proof (cases "0 < q")
    case True
    then show ?thesis by (simp add: r)
  next
    case False
    with assms(2) have "q < 0" by simp
    then have "r - q = - (of_int k * u - \<bar>q\<bar>)" by (simp add: r)
    then show ?thesis by (simp only: abs_minus)
  qed
  also have "of_int k * u - \<bar>q\<bar> = u * (of_int k - \<bar>q\<bar> / u)"
    using u by (simp add: field_simps)
  also have "\<bar>u * (of_int k - \<bar>q\<bar> / u)\<bar> = u * \<bar>of_int k - \<bar>q\<bar> / u\<bar>"
    using u by (simp add: abs_mult)
  also have "\<dots> \<le> u * (1 / 2)"
    using round_half_even_nearest [of "\<bar>q\<bar> / u"] u unfolding k_def
    by (intro mult_left_mono) simp_all
  finally show ?thesis by (simp add: u_def)
qed

lemma pow2_powi: "pow2 k = 2 powi k"
  by (simp add: pow2_def power_int_def power_one_over inverse_eq_divide)

lemma pow2_add: "pow2 (a + b) = pow2 a * pow2 b"
  by (simp add: pow2_powi power_int_add)

lemma pow2_mono: "a \<le> b \<Longrightarrow> pow2 a \<le> pow2 b"
  by (simp add: pow2_powi power_int_increasing)

lemma round_half_even_range:
  assumes "0 \<le> x" "x \<le> of_int n"
  shows "0 \<le> round_half_even x \<and> round_half_even x \<le> n"
proof -
  have f: "0 \<le> \<lfloor>x\<rfloor>" "\<lfloor>x\<rfloor> \<le> n"
    using assms by (simp_all add: floor_le_iff)
  show ?thesis
  proof (cases "\<lfloor>x\<rfloor> = n")
    case True
    with assms(2) have "x - of_int \<lfloor>x\<rfloor> \<le> 0" by simp
    then show ?thesis
      using f unfolding round_half_even_def by simp
  next
    case False
    with f have "\<lfloor>x\<rfloor> + 1 \<le> n" by simp
    with f show ?thesis
      unfolding round_half_even_def by simp
  qed
qed

lemma to_double_representable:
  assumes "to_double q = Fin r"
  shows "\<exists>k e. r = of_int k * pow2 (e - 52) \<and> \<bar>k\<bar> \<le> 2 ^ 53 \<and> - 1022 \<le> e \<and>
    \<bar>r\<bar> < 2 ^ 1024"
proof (cases "q = 0")
  case True
  with assms have "r = 0" by (simp add: to_double_def)
  then have "r = of_int 0 * pow2 (0 - 52) \<and> \<bar>0::int\<bar> \<le> 2 ^ 53 \<and> - 1022 \<le> (0::int) \<and>
      \<bar>r\<bar> < 2 ^ 1024"
    by simp
  then show ?thesis by blast
next
  case False
  define e where "e = max (ilog2 \<bar>q\<bar>) (- 1022)"
  define u where "u = pow2 (e - 52)"
  have u: "0 < u" by (simp add: u_def pow2_pos)
  define k where "k = round_half_even (\<bar>q\<bar> / u)"
  have "finite_or_infinite (sgn q * (of_int k * u)) = Fin r"
    using assms False unfolding to_double_def round_to_spacing_def e_def u_def k_def by simp
  then have r: "r = sgn q * (of_int k * u)" and fin: "\<bar>r\<bar> < 2 ^ 1024"
    unfolding finite_or_infinite_def overflow_threshold_def by (simp_all split: if_splits)
  from False have "0 < \<bar>q\<bar>" by simp
  then have "\<bar>q\<bar> < pow2 (ilog2 \<bar>q\<bar> + 1)"
    using ilog2_bounds by blast
  also have "\<dots> \<le> pow2 (e + 1)"
    by (rule pow2_mono) (simp add: e_def)
  also have "\<dots> = pow2 53 * u"
    using pow2_add [of 53 "e - 52"] by (simp add: u_def add.commute)
  finally have "\<bar>q\<bar> / u < pow2 53"
    using u by (simp add: field_simps)
  then have "\<bar>q\<bar> / u \<le> of_int (2 ^ 53)"
    by (simp add: pow2_def)
  moreover have "0 \<le> \<bar>q\<bar> / u"
    using u by simp
  ultimately have k: "0 \<le> k" "k \<le> 2 ^ 53"
    unfolding k_def using round_half_even_range [of "\<bar>q\<bar> / u" "2 ^ 53"] by blast+
  define k' where "k' = (if 0 < q then k else - k)"
  have "r = of_int k' * pow2 (e - 52)"
    using False by (simp add: r k'_def u_def sgn_if)
  moreover have "\<bar>k'\<bar> \<le> 2 ^ 53"
    using k by (simp add: k'_def)
  moreover have "- 1022 \<le> e"
    by (simp add: e_def)
  ultimately show ?thesis
    using fin by blast
qed

text \<open>The objects recorded in the comments of lines 93 to 101 and 105 to 113.\<close>

lemma base_6_recorded:
  "base_6 =
     ctx_of (Fin 120) (Fin 60) (Fin 35)
       (to_double (11368420875 / 1000000000))
       (to_double (10736841749999999 / 100000000000000))
       (to_double (39520417125 / 1000000000))
       (to_double (4520462756250001 / 1000000000000000))"
  by (simp add: dbl_eval)

lemma high_6_recorded:
  "high_6 =
     ctx_of (Fin 120) (Fin 90) (Fin 40)
       (to_double (14526315562499999 / 1000000000000000))
       (to_double (11052631124999999 / 100000000000000))
       (to_double (452514024375 / 10000000000))
       (to_double (5251456021875001 / 1000000000000000))"
  by (simp add: dbl_eval)

section \<open>The loop body on a context of the model\<close>

lemma start_context_Base: "start_context ''Base'' = base_0"
  by (rule ext)
    (simp add: start_context_def apply_overrides_def initial_context_def ctx_of_def Base_def
      spread_def map_add_def)

lemma start_context_HighEnergyPrices: "start_context ''HighEnergyPrices'' = high_0"
  by (rule ext)
    (simp add: start_context_def apply_overrides_def initial_context_def ctx_of_def Base_def
      HighEnergyPrices_def scenarios_def spread_def map_add_def)

lemma recalculate_ctx_of:
  "recalculate (ctx_of m e t c d l f) =
     (let d' = dadd (dmul m (to_double (8 / 10))) c;
          c' = dadd (dmul e (to_double (1 / 10))) (dmul d' (to_double (5 / 100)));
          l' = dadd t f;
          f' = dadd (dmul l' (to_double (1 / 10))) (dmul c' (to_double (5 / 100)))
      in ctx_of m e t c' d' l' f')"
  by (rule ext)
    (simp add: recalculate_def ctx_of_def Let_def field_def disposalCost_formula_def
      co2Cost_formula_def logisticsCost_formula_def ecoFees_formula_def)

lemma deltas_ctx_of:
  "deltas (ctx_of m e t c' d' l' f') (ctx_of m0 e0 t0 c d l f) =
     [dabs (dsub d' d), dabs (dsub c' c), dabs (dsub l' l), dabs (dsub f' f)]"
  by (simp add: deltas_def ctx_of_def field_def Math_abs_def)

lemma base_step_1: "recalculate base_0 = base_1"
  by (simp add: recalculate_ctx_of lit_eval dbl_eval split del: if_split)

lemma base_delta_1: "Math_max (deltas base_1 base_0) = Fin 96"
  by (simp add: deltas_ctx_of Math_max_def max2_def dsub_def dbl_eval split del: if_split)

lemma base_step_2: "recalculate base_1 = base_2"
  by (simp add: recalculate_ctx_of lit_eval dbl_eval split del: if_split)

lemma base_delta_2: "Math_max (deltas base_2 base_1) = Fin (759982437118771 / 70368744177664)"
  by (simp add: deltas_ctx_of Math_max_def max2_def dsub_def dbl_eval split del: if_split)

lemma base_step_3: "recalculate base_2 = base_3"
  by (simp add: recalculate_ctx_of lit_eval dbl_eval split del: if_split)

lemma base_delta_3: "Math_max (deltas base_3 base_2) = Fin (37999121855939 / 70368744177664)"
  by (simp add: deltas_ctx_of Math_max_def max2_def dsub_def dbl_eval split del: if_split)

lemma base_step_4: "recalculate base_3 = base_4"
  by (simp add: recalculate_ctx_of lit_eval dbl_eval split del: if_split)

lemma base_delta_4: "Math_max (deltas base_4 base_3) = Fin (3127890678697 / 70368744177664)"
  by (simp add: deltas_ctx_of Math_max_def max2_def dsub_def dbl_eval split del: if_split)

lemma base_step_5: "recalculate base_4 = base_5"
  by (simp add: recalculate_ctx_of lit_eval dbl_eval split del: if_split)

lemma base_delta_5: "Math_max (deltas base_5 base_4) = Fin (635077916203 / 140737488355328)"
  by (simp add: deltas_ctx_of Math_max_def max2_def dsub_def dbl_eval split del: if_split)

lemma base_step_6: "recalculate base_5 = base_6"
  by (simp add: recalculate_ctx_of lit_eval dbl_eval split del: if_split)

lemma base_delta_6: "Math_max (deltas base_6 base_5) = Fin (15995695161 / 35184372088832)"
  by (simp add: deltas_ctx_of Math_max_def max2_def dsub_def dbl_eval split del: if_split)

lemma base_step_7: "recalculate base_6 = base_7"
  by (simp add: recalculate_ctx_of lit_eval dbl_eval split del: if_split)

lemma base_delta_7: "Math_max (deltas base_7 base_6) = Fin (6422027515 / 140737488355328)"
  by (simp add: deltas_ctx_of Math_max_def max2_def dsub_def dbl_eval split del: if_split)

lemma high_step_1: "recalculate high_0 = high_1"
  by (simp add: recalculate_ctx_of lit_eval dbl_eval split del: if_split)

lemma high_delta_1: "Math_max (deltas high_1 high_0) = Fin 96"
  by (simp add: deltas_ctx_of Math_max_def max2_def dsub_def dbl_eval split del: if_split)

lemma high_step_2: "recalculate high_1 = high_2"
  by (simp add: recalculate_ctx_of lit_eval dbl_eval split del: if_split)

lemma high_delta_2: "Math_max (deltas high_2 high_1) = Fin (971088669651763 / 70368744177664)"
  by (simp add: deltas_ctx_of Math_max_def max2_def dsub_def dbl_eval split del: if_split)

lemma high_step_3: "recalculate high_2 = high_3"
  by (simp add: recalculate_ctx_of lit_eval dbl_eval split del: if_split)

lemma high_delta_3: "Math_max (deltas high_3 high_2) = Fin (12138608370647 / 17592186044416)"
  by (simp add: deltas_ctx_of Math_max_def max2_def dsub_def dbl_eval split del: if_split)

lemma high_step_4: "recalculate high_3 = high_4"
  by (simp add: recalculate_ctx_of lit_eval dbl_eval split del: if_split)

lemma high_delta_4: "Math_max (deltas high_4 high_3) = Fin (916113088263 / 17592186044416)"
  by (simp add: deltas_ctx_of Math_max_def max2_def dsub_def dbl_eval split del: if_split)

lemma high_step_5: "recalculate high_4 = high_5"
  by (simp add: recalculate_ctx_of lit_eval dbl_eval split del: if_split)

lemma high_delta_5: "Math_max (deltas high_5 high_4) = Fin (745029078981 / 140737488355328)"
  by (simp add: deltas_ctx_of Math_max_def max2_def dsub_def dbl_eval split del: if_split)

lemma high_step_6: "recalculate high_5 = high_6"
  by (simp add: recalculate_ctx_of lit_eval dbl_eval split del: if_split)

lemma high_delta_6: "Math_max (deltas high_6 high_5) = Fin (18777459579 / 35184372088832)"
  by (simp add: deltas_ctx_of Math_max_def max2_def dsub_def dbl_eval split del: if_split)

section \<open>The loop\<close>

lemma loop_done: "\<not> i < N \<Longrightarrow> loop i N t c out = (c, out)"
  by (subst loop.simps) simp

lemma loop_stop:
  "i < N \<Longrightarrow> converged t (recalculate c) c \<Longrightarrow>
   loop i N t c out = (recalculate c, out @ [Converged_in (i + 1)])"
  by (subst loop.simps) (simp add: converged_def)

lemma loop_continue:
  "i < N \<Longrightarrow> \<not> converged t (recalculate c) c \<Longrightarrow>
   loop i N t c out = loop (i + 1) N t (recalculate c) out"
  by (subst loop.simps) (simp add: converged_def)

lemma iterate_0 [simp]: "iterate 0 c = c"
  by (simp add: iterate_def)

lemma iterate_Suc: "iterate (Suc k) c = recalculate (iterate k c)"
  by (simp add: iterate_def)

lemma iterate_Suc_shift: "iterate (Suc k) c = iterate k (recalculate c)"
  by (simp add: iterate_def funpow_swap1)

text \<open>As long as no pass meets the test, the loop goes on with the next iterate.\<close>

lemma loop_skip:
  "(\<And>j. j < m \<Longrightarrow> \<not> converged t (iterate (Suc j) c) (iterate j c)) \<Longrightarrow> i + m \<le> N \<Longrightarrow>
   loop i N t c out = loop (i + m) N t (iterate m c) out"
proof (induction m arbitrary: i c)
  case 0
  then show ?case by simp
next
  case (Suc m)
  have first: "\<not> converged t (recalculate c) c"
    using Suc.prems(1) [of 0] by (simp add: iterate_Suc)
  have rest: "\<not> converged t (iterate (Suc j) (recalculate c)) (iterate j (recalculate c))"
    if "j < m" for j
    using Suc.prems(1) [of "Suc j"] that by (simp add: iterate_Suc_shift)
  have "loop i N t c out = loop (Suc i) N t (recalculate c) out"
    using Suc.prems(2) first by (simp add: loop_continue)
  also have "\<dots> = loop (Suc i + m) N t (iterate m (recalculate c)) out"
    using Suc.IH [of "recalculate c" "Suc i"] rest Suc.prems(2) by simp
  finally show ?case by (simp add: iterate_Suc_shift)
qed

lemma loop_exhausted:
  assumes "\<And>j. j < N \<Longrightarrow> \<not> converged t (iterate (Suc j) c) (iterate j c)"
  shows "loop 0 N t c out = (iterate N c, out)"
  using loop_skip [of N t c 0 N out] assms by (simp add: loop_done)

lemma loop_converges:
  assumes "k < N" "converged t (iterate (Suc k) c) (iterate k c)"
    and "\<And>j. j < k \<Longrightarrow> \<not> converged t (iterate (Suc j) c) (iterate j c)"
  shows "loop 0 N t c out = (iterate (Suc k) c, out @ [Converged_in (Suc k)])"
proof -
  have "loop 0 N t c out = loop k N t (iterate k c) out"
    using loop_skip [of k t c 0 N out] assms by simp
  also have "\<dots> = (recalculate (iterate k c), out @ [Converged_in (Suc k)])"
    using assms(1,2) by (simp add: loop_stop iterate_Suc)
  finally show ?thesis by (simp add: iterate_Suc)
qed

text \<open>The maximum is below the threshold exactly when every difference is.\<close>

lemma dless_max2: "dless (max2 x y) t \<longleftrightarrow> dless x t \<and> dless y t"
  by (cases x; cases y; cases t) (auto simp: max2_def)

lemma dless_NInf_if: "dless x t \<Longrightarrow> dless NInf t"
  by (cases x; cases t) auto

lemma converged_iff_all:
  "converged t c' c \<longleftrightarrow> list_all (\<lambda>d. dless d t) (deltas c' c)"
  by (auto simp: converged_def deltas_def Math_max_def dless_max2 dest: dless_NInf_if)

lemma deltas_members:
  "deltas c' c = map (\<lambda>a. Math_abs (dsub (field c' a) (field c a))) calculated_attributes"
  by (simp add: deltas_def calculated_attributes_def)

text \<open>The loop body, and so the loop, leaves every other property as it is.\<close>

lemma recalculate_frame:
  "k \<notin> set calculated_attributes \<Longrightarrow> recalculate c k = c k"
  by (simp add: recalculate_def Let_def calculated_attributes_def)

lemma loop_frame:
  "k \<notin> set calculated_attributes \<Longrightarrow> fst (loop i N t c out) k = c k"
proof (induction i N t c out rule: loop.induct)
  case (1 iteration maxIterations threshold ctx out)
  show ?case
  proof (cases "iteration < maxIterations")
    case False
    then show ?thesis by (simp add: loop_done)
  next
    case True
    show ?thesis
    proof (cases "converged threshold (recalculate ctx) ctx")
      case True
      with \<open>iteration < maxIterations\<close> show ?thesis
        using "1.prems" by (simp add: loop_stop recalculate_frame)
    next
      case False
      with \<open>iteration < maxIterations\<close> "1.IH" [OF _ refl refl] "1.prems" show ?thesis
        by (simp add: loop_continue recalculate_frame converged_def)
    qed
  qed
qed

text \<open>What a run returns does not depend on what was printed before it.\<close>

lemma loop_console:
  "loop i N t c out = (fst (loop i N t c []), out @ snd (loop i N t c []))"
proof (induction i N t c out rule: loop.induct)
  case (1 iteration maxIterations threshold ctx out)
  show ?case
  proof (cases "iteration < maxIterations")
    case False
    then show ?thesis by (simp add: loop_done)
  next
    case True
    show ?thesis
    proof (cases "converged threshold (recalculate ctx) ctx")
      case True
      with \<open>iteration < maxIterations\<close> show ?thesis
        by (simp add: loop_stop)
    next
      case False
      with \<open>iteration < maxIterations\<close> "1.IH" [OF _ refl refl] show ?thesis
        by (simp add: loop_continue converged_def)
    qed
  qed
qed

text \<open>The properties of the returned object.\<close>

lemma dom_recalculate: "dom (recalculate c) = dom c \<union> set calculated_attributes"
  by (auto simp: recalculate_def Let_def calculated_attributes_def)

lemma dom_iterate:
  "set calculated_attributes \<subseteq> dom c \<Longrightarrow> dom (iterate k c) = dom c"
  by (induction k) (auto simp: iterate_Suc dom_recalculate)

lemma dom_start_context: "dom (start_context s) = attribute_names"
  by (auto simp: start_context_def apply_overrides_def initial_context_def scenarios_def Base_def
      HighEnergyPrices_def spread_def attribute_names_def split: if_splits)

lemma calculated_in_start: "set calculated_attributes \<subseteq> dom (start_context s)"
  by (simp add: dom_start_context attribute_names_def calculated_attributes_def)

text \<open>The differences are never negative, and the test is strict.\<close>

lemma dabs_not_negative: "\<not> dless (dabs x) (Fin 0)"
  by (cases x) simp_all

lemma dless_irreflexive: "\<not> dless x x"
  by (cases x) simp_all

lemma deltas_not_negative: "list_all (\<lambda>d. \<not> dless d (Fin 0)) (deltas c' c)"
  by (simp add: deltas_def Math_abs_def dabs_not_negative)

lemma converged_group_delta:
  "converged t c' c \<longleftrightarrow> dless (group_delta calculated_attributes c' c) t"
  by (simp add: converged_def group_delta_def deltas_members)

lemma converged_iff_both_cycles:
  "converged t c' c \<longleftrightarrow>
   dless (group_delta production_cycle c' c) t \<and> dless (group_delta logistics_cycle c' c) t"
  by (auto simp: converged_def deltas_def group_delta_def production_cycle_def
      logistics_cycle_def Math_max_def dless_max2 dest: dless_NInf_if)

section \<open>The two runs of the script\<close>

lemma base_tests:
  "converged default_threshold base_1 base_0 = False"
  "converged default_threshold base_2 base_1 = False"
  "converged default_threshold base_3 base_2 = False"
  "converged default_threshold base_4 base_3 = False"
  "converged default_threshold base_5 base_4 = False"
  "converged default_threshold base_6 base_5 = True"
  "converged default_threshold base_7 base_6 = True"
  by (simp_all add: converged_def default_threshold_def lit_eval base_delta_1 base_delta_2
      base_delta_3 base_delta_4 base_delta_5 base_delta_6 base_delta_7)

lemma high_tests:
  "converged default_threshold high_1 high_0 = False"
  "converged default_threshold high_2 high_1 = False"
  "converged default_threshold high_3 high_2 = False"
  "converged default_threshold high_4 high_3 = False"
  "converged default_threshold high_5 high_4 = False"
  "converged default_threshold high_6 high_5 = True"
  by (simp_all add: converged_def default_threshold_def lit_eval high_delta_1 high_delta_2
      high_delta_3 high_delta_4 high_delta_5 high_delta_6)

lemmas base_steps = base_step_1 base_step_2 base_step_3 base_step_4 base_step_5 base_step_6
  base_step_7

lemmas high_steps = high_step_1 high_step_2 high_step_3 high_step_4 high_step_5 high_step_6

lemma base_iterates:
  "iterate 0 base_0 = base_0" "iterate 1 base_0 = base_1" "iterate 2 base_0 = base_2"
  "iterate 3 base_0 = base_3" "iterate 4 base_0 = base_4" "iterate 5 base_0 = base_5"
  "iterate 6 base_0 = base_6"
  by (simp_all add: iterate_def eval_nat_numeral base_steps)

lemma loop_Base:
  "n \<le> 94 \<Longrightarrow>
   loop 0 (6 + n) default_threshold base_0 out = (base_6, out @ [Converged_in 6])"
  by (simp add: loop_continue loop_stop base_steps base_tests)

lemma loop_HighEnergyPrices:
  "n \<le> 94 \<Longrightarrow>
   loop 0 (6 + n) default_threshold high_0 out = (high_6, out @ [Converged_in 6])"
  by (simp add: loop_continue loop_stop high_steps high_tests)

text \<open>The Base run under the thresholds \<open>0.002\<close> and 96.\<close>

lemma lit_two_thousandths:
  "to_double (2 / 1000) = Fin (1152921504606847 / 576460752303423488)"
  "to_double (1 / 500) = Fin (1152921504606847 / 576460752303423488)"
  by (simp_all add: dbl_eval)

lemma base_tests_two_thousandths:
  "converged (Fin (1152921504606847 / 576460752303423488)) base_1 base_0 = False"
  "converged (Fin (1152921504606847 / 576460752303423488)) base_2 base_1 = False"
  "converged (Fin (1152921504606847 / 576460752303423488)) base_3 base_2 = False"
  "converged (Fin (1152921504606847 / 576460752303423488)) base_4 base_3 = False"
  "converged (Fin (1152921504606847 / 576460752303423488)) base_5 base_4 = False"
  "converged (Fin (1152921504606847 / 576460752303423488)) base_6 base_5 = True"
  by (simp_all add: converged_def base_delta_1 base_delta_2 base_delta_3 base_delta_4
      base_delta_5 base_delta_6)

lemma loop_Base_two_thousandths:
  "loop 0 100 (to_double (2 / 1000)) base_0 out = (base_6, out @ [Converged_in 6])"
  unfolding lit_two_thousandths
  by (simp add: loop_continue loop_stop base_steps base_tests_two_thousandths)

lemma group_deltas_pass_5:
  "group_delta production_cycle base_5 base_4 = Fin (94997804639 / 70368744177664)"
  "group_delta logistics_cycle base_5 base_4 = Fin (635077916203 / 140737488355328)"
  by (simp_all add: group_delta_def production_cycle_def logistics_cycle_def field_def
      ctx_of_def Math_abs_def Math_max_def max2_def dsub_def dbl_eval)

lemma base_test_at_96: "converged (Fin 96) base_1 base_0 = False"
  by (simp add: converged_def base_delta_1)

lemma loop_Base_at_96: "loop 0 1 (Fin 96) base_0 out = (base_1, out)"
  by (simp add: loop_continue loop_done base_steps base_test_at_96)

lemma deltas_of_a_decrease: "Math_max (deltas base_0 base_1) = Fin 96"
  by (simp add: deltas_ctx_of Math_max_def max2_def dsub_def dbl_eval)

lemma base_no_early_stop:
  "j < 5 \<Longrightarrow> \<not> converged default_threshold (iterate (Suc j) base_0) (iterate j base_0)"
proof -
  assume "j < 5"
  then consider "j = 0" | "j = 1" | "j = 2" | "j = 3" | "j = 4"
    by linarith
  then show ?thesis
    by cases (simp_all add: iterate_Suc base_iterates base_steps base_tests)
qed

lemma start_context_unknown: "scenarios s = None \<Longrightarrow> start_context s = initial_context"
  by (simp add: start_context_def apply_overrides_def)

lemma start_context_Base_initial: "start_context ''Base'' = initial_context"
  by (simp add: start_context_def apply_overrides_def)

section \<open>The claims\<close>

text \<open>
  C1. The run of the Base scenario with the default cap and threshold \<open>0.001\<close> starts from
  the inputs 120, 60 and 35 with every calculated attribute at 0, prints
  \<^verbatim>\<open>Converged in 6 iterations.\<close> (so it stops in the sixth pass and in none before) and
  returns the object that the comment of lines 93 to 101 records; its co2Cost,
  disposalCost, logisticsCost and ecoFees are, to three decimals, 11.368, 107.368, 39.520
  and 4.520.
\<close>

theorem base_scenario_run:
  "start_context ''Base'' = base_0 \<and>
   runSimulation ''Base'' default_maxIterations default_threshold out =
     (base_6, out @ [Converged_in 6]) \<and>
   base_6 =
     ctx_of (Fin 120) (Fin 60) (Fin 35)
       (to_double (11368420875 / 1000000000))
       (to_double (10736841749999999 / 100000000000000))
       (to_double (39520417125 / 1000000000))
       (to_double (4520462756250001 / 1000000000000000)) \<and>
   close_to (field base_6 ''co2Cost'') (11368 / 1000) \<and>
   close_to (field base_6 ''disposalCost'') (107368 / 1000) \<and>
   close_to (field base_6 ''logisticsCost'') (39520 / 1000) \<and>
   close_to (field base_6 ''ecoFees'') (4520 / 1000)"
proof -
  have run: "runSimulation ''Base'' default_maxIterations default_threshold out =
      (base_6, out @ [Converged_in 6])"
    using loop_Base [of 94 out]
    by (simp add: runSimulation_def start_context_Base default_maxIterations_def)
  have vals:
    "close_to (field base_6 ''co2Cost'') (11368 / 1000)"
    "close_to (field base_6 ''disposalCost'') (107368 / 1000)"
    "close_to (field base_6 ''logisticsCost'') (39520 / 1000)"
    "close_to (field base_6 ''ecoFees'') (4520 / 1000)"
    by (simp_all add: field_def ctx_of_def)
  from start_context_Base run base_6_recorded vals show ?thesis
    by (intro conjI)
qed

text \<open>
  C2. The run of the scenario HighEnergyPrices, which sets only energyCost to 90 and
  transportCost to 40, starts with materialCost at 120, prints
  \<^verbatim>\<open>Converged in 6 iterations.\<close> as the Base run does, and returns the object that
  the comment of lines 105 to 113 records; its co2Cost, disposalCost, logisticsCost and
  ecoFees are, to three decimals, 14.526, 110.526, 45.251 and 5.251.
\<close>

theorem high_energy_prices_run:
  "start_context ''HighEnergyPrices'' = high_0 \<and>
   runSimulation ''HighEnergyPrices'' default_maxIterations default_threshold out =
     (high_6, out @ [Converged_in 6]) \<and>
   snd (runSimulation ''HighEnergyPrices'' default_maxIterations default_threshold out) =
     snd (runSimulation ''Base'' default_maxIterations default_threshold out) \<and>
   high_6 =
     ctx_of (Fin 120) (Fin 90) (Fin 40)
       (to_double (14526315562499999 / 1000000000000000))
       (to_double (11052631124999999 / 100000000000000))
       (to_double (452514024375 / 10000000000))
       (to_double (5251456021875001 / 1000000000000000)) \<and>
   close_to (field high_6 ''co2Cost'') (14526 / 1000) \<and>
   close_to (field high_6 ''disposalCost'') (110526 / 1000) \<and>
   close_to (field high_6 ''logisticsCost'') (45251 / 1000) \<and>
   close_to (field high_6 ''ecoFees'') (5251 / 1000)"
proof -
  have run: "runSimulation ''HighEnergyPrices'' default_maxIterations default_threshold out =
      (high_6, out @ [Converged_in 6])"
    using loop_HighEnergyPrices [of 94 out]
    by (simp add: runSimulation_def start_context_HighEnergyPrices default_maxIterations_def)
  have vals:
    "close_to (field high_6 ''co2Cost'') (14526 / 1000)"
    "close_to (field high_6 ''disposalCost'') (110526 / 1000)"
    "close_to (field high_6 ''logisticsCost'') (45251 / 1000)"
    "close_to (field high_6 ''ecoFees'') (5251 / 1000)"
    by (simp_all add: field_def ctx_of_def)
  have base: "runSimulation ''Base'' default_maxIterations default_threshold out =
      (base_6, out @ [Converged_in 6])"
    using loop_Base [of 94 out]
    by (simp add: runSimulation_def start_context_Base default_maxIterations_def)
  have same: "snd (runSimulation ''HighEnergyPrices'' default_maxIterations default_threshold out) =
      snd (runSimulation ''Base'' default_maxIterations default_threshold out)"
    by (simp only: run base snd_conv)
  from start_context_HighEnergyPrices run same high_6_recorded vals show ?thesis
    by (intro conjI)
qed

text \<open>
  C3. In every pass the four calculated attributes are assigned one after the other, in
  the order disposalCost, co2Cost, logisticsCost, ecoFees, and an assignment is seen by the
  formulas after it: in pass \<open>k + 1\<close>, disposalCost reads the co2Cost of pass \<open>k\<close>, while
  co2Cost reads the disposalCost of pass \<open>k + 1\<close>; logisticsCost reads the ecoFees of pass
  \<open>k\<close>, while ecoFees reads the logisticsCost and the co2Cost of pass \<open>k + 1\<close>. In the
  first pass of the Base run this is not what the formula gives on the values before the
  pass.
\<close>

theorem sequential_update:
  "field (iterate (Suc k) c) ''disposalCost'' =
     dadd (dmul (field (iterate k c) ''materialCost'') (to_double (8 / 10)))
          (field (iterate k c) ''co2Cost'') \<and>
   field (iterate (Suc k) c) ''co2Cost'' =
     dadd (dmul (field (iterate k c) ''energyCost'') (to_double (1 / 10)))
          (dmul (field (iterate (Suc k) c) ''disposalCost'') (to_double (5 / 100))) \<and>
   field (iterate (Suc k) c) ''logisticsCost'' =
     dadd (field (iterate k c) ''transportCost'') (field (iterate k c) ''ecoFees'') \<and>
   field (iterate (Suc k) c) ''ecoFees'' =
     dadd (dmul (field (iterate (Suc k) c) ''logisticsCost'') (to_double (1 / 10)))
          (dmul (field (iterate (Suc k) c) ''co2Cost'') (to_double (5 / 100))) \<and>
   field (iterate 1 (start_context ''Base'')) ''co2Cost'' \<noteq>
     co2Cost_formula (iterate 0 (start_context ''Base''))"
proof -
  have pass: "field (recalculate p) ''disposalCost'' =
       dadd (dmul (field p ''materialCost'') (to_double (8 / 10))) (field p ''co2Cost'') \<and>
     field (recalculate p) ''co2Cost'' =
       dadd (dmul (field p ''energyCost'') (to_double (1 / 10)))
            (dmul (field (recalculate p) ''disposalCost'') (to_double (5 / 100))) \<and>
     field (recalculate p) ''logisticsCost'' =
       dadd (field p ''transportCost'') (field p ''ecoFees'') \<and>
     field (recalculate p) ''ecoFees'' =
       dadd (dmul (field (recalculate p) ''logisticsCost'') (to_double (1 / 10)))
            (dmul (field (recalculate p) ''co2Cost'') (to_double (5 / 100)))" for p
    by (simp add: recalculate_def Let_def field_def disposalCost_formula_def
        co2Cost_formula_def logisticsCost_formula_def ecoFees_formula_def)
  have stale: "co2Cost_formula base_0 = Fin 6"
    by (simp add: co2Cost_formula_def field_def ctx_of_def lit_eval dbl_eval)
  have fresh: "field (iterate 1 base_0) ''co2Cost'' = Fin (3039929748475085 / 281474976710656)"
    unfolding base_iterates by (simp add: field_def ctx_of_def)
  have "field (iterate 1 (start_context ''Base'')) ''co2Cost'' \<noteq>
      co2Cost_formula (iterate 0 (start_context ''Base''))"
    unfolding start_context_Base fresh iterate_0 stale by simp
  with pass [of "iterate k c"] show ?thesis
    by (simp only: iterate_Suc simp_thms)
qed

text \<open>
  C4, as the code has it. The loop has one list of differences and one test for the four
  calculated attributes, that is, for both cyclic groups together. After a pass the
  differences are the absolute differences (never negative) of the four attributes between
  the context after the pass and the one before it. The test compares their maximum
  with the threshold, strictly: it holds exactly when every difference is below the
  threshold, that is, when the maxima of both cyclic groups are, and it fails when the
  threshold equals the maximum. The run stops at the first pass that meets the test,
  printing its number and returning the context after it; if none of the first
  \<open>maxIterations\<close> passes meets it, the run makes exactly \<open>maxIterations\<close> passes.
\<close>

theorem convergence_test:
  "deltas c' c =
     map (\<lambda>a. Math_abs (dsub (field c' a) (field c a))) calculated_attributes \<and>
   calculated_attributes = production_cycle @ logistics_cycle \<and>
   list_all (\<lambda>d. \<not> dless d (Fin 0)) (deltas c' c) \<and>
   Math_max (deltas base_0 base_1) = Fin 96 \<and>
   (converged t c' c \<longleftrightarrow> dless (group_delta calculated_attributes c' c) t) \<and>
   (converged t c' c \<longleftrightarrow> list_all (\<lambda>d. dless d t) (deltas c' c)) \<and>
   (converged t c' c \<longleftrightarrow>
      dless (group_delta production_cycle c' c) t \<and>
      dless (group_delta logistics_cycle c' c) t) \<and>
   \<not> converged (Math_max (deltas c' c)) c' c \<and>
   runSimulation ''Base'' 1 (Fin 96) out = (base_1, out) \<and>
   (k < N \<and>
    converged t (iterate (Suc k) (start_context s)) (iterate k (start_context s)) \<and>
    (\<forall>j<k. \<not> converged t (iterate (Suc j) (start_context s)) (iterate j (start_context s)))
    \<longrightarrow>
    runSimulation s N t out =
      (iterate (Suc k) (start_context s), out @ [Converged_in (Suc k)])) \<and>
   ((\<forall>j<N. \<not> converged t (iterate (Suc j) (start_context s)) (iterate j (start_context s)))
    \<longrightarrow>
    runSimulation s N t out = (iterate N (start_context s), out))"
proof (intro conjI impI)
  show "deltas c' c =
      map (\<lambda>a. Math_abs (dsub (field c' a) (field c a))) calculated_attributes"
    by (rule deltas_members)
  show "calculated_attributes = production_cycle @ logistics_cycle"
    by (simp add: calculated_attributes_def production_cycle_def logistics_cycle_def)
  show "list_all (\<lambda>d. \<not> dless d (Fin 0)) (deltas c' c)"
    by (rule deltas_not_negative)
  show "Math_max (deltas base_0 base_1) = Fin 96"
    by (rule deltas_of_a_decrease)
  show "converged t c' c \<longleftrightarrow> dless (group_delta calculated_attributes c' c) t"
    by (rule converged_group_delta)
  show "converged t c' c \<longleftrightarrow> list_all (\<lambda>d. dless d t) (deltas c' c)"
    by (rule converged_iff_all)
  show "converged t c' c \<longleftrightarrow>
      dless (group_delta production_cycle c' c) t \<and>
      dless (group_delta logistics_cycle c' c) t"
    by (rule converged_iff_both_cycles)
  show "\<not> converged (Math_max (deltas c' c)) c' c"
    unfolding converged_def by (rule dless_irreflexive)
  show "runSimulation ''Base'' 1 (Fin 96) out = (base_1, out)"
    unfolding runSimulation_def start_context_Base by (rule loop_Base_at_96)
next
  assume "k < N \<and>
    converged t (iterate (Suc k) (start_context s)) (iterate k (start_context s)) \<and>
    (\<forall>j<k. \<not> converged t (iterate (Suc j) (start_context s)) (iterate j (start_context s)))"
  then show "runSimulation s N t out =
      (iterate (Suc k) (start_context s), out @ [Converged_in (Suc k)])"
    unfolding runSimulation_def by (intro loop_converges) auto
next
  assume "\<forall>j<N. \<not> converged t (iterate (Suc j) (start_context s)) (iterate j (start_context s))"
  then show "runSimulation s N t out = (iterate N (start_context s), out)"
    unfolding runSimulation_def by (intro loop_exhausted) auto
qed

theorem convergence_test_witness:
  "converged default_threshold (iterate 6 (start_context ''Base''))
     (iterate 5 (start_context ''Base'')) \<and>
   \<not> converged default_threshold (iterate 1 (start_context ''Base''))
     (iterate 0 (start_context ''Base'')) \<and>
   runSimulation ''Base'' 100 default_threshold [] =
     (iterate 6 (start_context ''Base''), [Converged_in 6]) \<and>
   runSimulation ''Base'' 1 default_threshold [] = (iterate 1 (start_context ''Base''), [])"
proof -
  have stop: "converged default_threshold (iterate (Suc 5) (start_context ''Base''))
      (iterate 5 (start_context ''Base''))"
    unfolding start_context_Base by (simp add: iterate_Suc base_iterates base_steps base_tests)
  have early: "\<forall>j<5. \<not> converged default_threshold (iterate (Suc j) (start_context ''Base''))
      (iterate j (start_context ''Base''))"
    unfolding start_context_Base using base_no_early_stop by blast
  have first: "\<forall>j<1. \<not> converged default_threshold (iterate (Suc j) (start_context ''Base''))
      (iterate j (start_context ''Base''))"
  proof (intro allI impI)
    fix j :: nat
    assume "j < 1"
    then have "j < 5" by simp
    with early show "\<not> converged default_threshold (iterate (Suc j) (start_context ''Base''))
        (iterate j (start_context ''Base''))"
      by blast
  qed
  have lt: "(5::nat) < 100"
    by simp
  note rule = convergence_test [where c = "start_context ''Base''"
      and c' = "start_context ''Base''" and t = default_threshold and s = "''Base''"
      and out = "[]"]
  have six: "runSimulation ''Base'' 100 default_threshold [] =
      (iterate (Suc 5) (start_context ''Base''), [] @ [Converged_in (Suc 5)])"
    using rule [where k = 5 and N = 100] lt stop early by blast
  have one: "runSimulation ''Base'' 1 default_threshold [] =
      (iterate 1 (start_context ''Base''), [])"
    using rule [where k = 0 and N = 1] first by blast
  have "\<not> converged default_threshold (iterate 1 (start_context ''Base''))
      (iterate 0 (start_context ''Base''))"
    using first by simp
  with stop six one show ?thesis
    by (simp add: eval_nat_numeral)
qed

text \<open>
  The claim C4 itself fails, since it takes the test per cyclic group: under the threshold
  \<open>0.002\<close>, after the fifth pass of the Base run the largest difference of the group of
  disposalCost and co2Cost is below the threshold and that of the group of logisticsCost
  and ecoFees is not; the run goes on, and its sixth pass assigns disposalCost another
  value.
\<close>

theorem test_not_per_group:
  "iterate 4 (start_context ''Base'') = base_4 \<and>
   iterate 5 (start_context ''Base'') = base_5 \<and>
   dless (group_delta production_cycle base_5 base_4) (to_double (2 / 1000)) \<and>
   \<not> dless (group_delta logistics_cycle base_5 base_4) (to_double (2 / 1000)) \<and>
   runSimulation ''Base'' default_maxIterations (to_double (2 / 1000)) [] =
     (base_6, [Converged_in 6]) \<and>
   field base_6 ''disposalCost'' \<noteq> field base_5 ''disposalCost''"
proof -
  have it: "iterate 4 (start_context ''Base'') = base_4"
    "iterate 5 (start_context ''Base'') = base_5"
    unfolding start_context_Base by (rule base_iterates)+
  have groups: "dless (group_delta production_cycle base_5 base_4) (to_double (2 / 1000))"
    "\<not> dless (group_delta logistics_cycle base_5 base_4) (to_double (2 / 1000))"
    unfolding group_deltas_pass_5 lit_two_thousandths by simp_all
  have run: "runSimulation ''Base'' default_maxIterations (to_double (2 / 1000)) [] =
      (base_6, [Converged_in 6])"
    using loop_Base_two_thousandths [of "[]"]
    by (simp add: runSimulation_def start_context_Base default_maxIterations_def)
  have "field base_6 ''disposalCost'' \<noteq> field base_5 ''disposalCost''"
    by (simp add: field_def ctx_of_def)
  with it groups run show ?thesis
    by (intro conjI)
qed

text \<open>
  C5, as the code has it. When none of the first \<open>maxIterations\<close> passes meets the test,
  the run ends after them and returns the context of the last pass; it prints nothing,
  and the returned object has the seven attributes and no other property, so the result
  carries no convergence flag.
\<close>

theorem cap_reached:
  "(\<forall>j<N. \<not> converged t (iterate (Suc j) (start_context s)) (iterate j (start_context s)))
   \<Longrightarrow>
   runSimulation s N t out = (iterate N (start_context s), out) \<and>
   dom (iterate N (start_context s)) = attribute_names"
proof -
  assume "\<forall>j<N. \<not> converged t (iterate (Suc j) (start_context s)) (iterate j (start_context s))"
  then have "loop 0 N t (start_context s) out = (iterate N (start_context s), out)"
    by (intro loop_exhausted) auto
  moreover have "dom (iterate N (start_context s)) = attribute_names"
    using dom_iterate [OF calculated_in_start] by (simp add: dom_start_context)
  ultimately show ?thesis
    by (simp add: runSimulation_def)
qed

theorem cap_reached_witness:
  "\<not> converged default_threshold (iterate 1 (start_context ''Base''))
     (iterate 0 (start_context ''Base'')) \<and>
   runSimulation ''Base'' 1 default_threshold [] = (base_1, []) \<and>
   dom base_1 = attribute_names"
proof -
  have first: "\<forall>j<1. \<not> converged default_threshold (iterate (Suc j) (start_context ''Base''))
      (iterate j (start_context ''Base''))"
    unfolding start_context_Base
  proof (intro allI impI)
    fix j :: nat
    assume "j < 1"
    then have "j < 5" by simp
    then show "\<not> converged default_threshold (iterate (Suc j) base_0) (iterate j base_0)"
      by (rule base_no_early_stop)
  qed
  have it: "iterate 1 (start_context ''Base'') = base_1"
    unfolding start_context_Base by (rule base_iterates)
  have nc: "\<not> converged default_threshold (iterate 1 (start_context ''Base''))
      (iterate 0 (start_context ''Base''))"
    using first by simp
  have r: "runSimulation ''Base'' 1 default_threshold [] =
      (iterate 1 (start_context ''Base''), []) \<and>
    dom (iterate 1 (start_context ''Base'')) = attribute_names"
    by (rule cap_reached [OF first])
  show ?thesis
    using nc r unfolding it by blast
qed

text \<open>
  The claim C5 itself fails: with a cap of one pass the Base run does not converge under
  the threshold \<open>0.001\<close> and converges under the threshold 1000, and both runs return the
  same object, which has no property \<^verbatim>\<open>converged\<close>; only the console differs.
\<close>

theorem no_convergence_flag:
  "fst (runSimulation ''Base'' 1 default_threshold []) =
     fst (runSimulation ''Base'' 1 (Fin 1000) []) \<and>
   snd (runSimulation ''Base'' 1 default_threshold []) = [] \<and>
   snd (runSimulation ''Base'' 1 (Fin 1000) []) = [Converged_in 1] \<and>
   fst (runSimulation ''Base'' 1 default_threshold []) ''converged'' = None"
proof -
  have large: "converged (Fin 1000) base_1 base_0"
    by (simp add: converged_def base_delta_1)
  have a: "runSimulation ''Base'' 1 default_threshold [] = (base_1, [])"
    by (simp add: runSimulation_def start_context_Base loop_continue loop_done base_steps
        base_tests)
  have b: "runSimulation ''Base'' 1 (Fin 1000) [] = (base_1, [Converged_in 1])"
    by (simp add: runSimulation_def start_context_Base loop_stop base_steps large)
  have "base_1 ''converged'' = None"
    by (simp add: ctx_of_def)
  with a b show ?thesis
    by simp
qed



text \<open>
  C7. For every scenario name, an input attribute has in the context the run starts from
  the value the scenario sets for it, if it sets one, and its default otherwise.
\<close>

theorem inputs_resolved:
  "default_of b a = Some v \<Longrightarrow>
   start_context s a = (case override_of s b a of Some w \<Rightarrow> Some w | None \<Rightarrow> Some v)"
proof -
  assume "default_of b a = Some v"
  then consider
      "b = ''Production''" "a = ''materialCost''" "v = Fin 120"
    | "b = ''Production''" "a = ''energyCost''" "v = Fin 60"
    | "b = ''Logistics''" "a = ''transportCost''" "v = Fin 35"
    by (auto simp: default_of_def blocks_def Production_def Logistics_def
        split: if_splits option.splits attribute.splits)
  then show ?thesis
    by cases
      (auto simp: start_context_def apply_overrides_def initial_context_def override_of_def
        scenarios_def Base_def HighEnergyPrices_def spread_def map_add_def)
qed

theorem inputs_resolved_witness:
  "default_of ''Production'' ''materialCost'' = Some (Fin 120) \<and>
   override_of ''HighEnergyPrices'' ''Production'' ''materialCost'' = None \<and>
   override_of ''HighEnergyPrices'' ''Production'' ''energyCost'' = Some (Fin 90) \<and>
   start_context ''HighEnergyPrices'' ''materialCost'' = Some (Fin 120)"
proof -
  have d: "default_of ''Production'' ''materialCost'' = Some (Fin 120)"
    by (simp add: default_of_def blocks_def Production_def)
  have o: "override_of ''HighEnergyPrices'' ''Production'' ''materialCost'' = None"
    "override_of ''HighEnergyPrices'' ''Production'' ''energyCost'' = Some (Fin 90)"
    by (simp_all add: override_of_def scenarios_def HighEnergyPrices_def spread_def)
  from inputs_resolved [OF d, of "''HighEnergyPrices''"] d o show ?thesis
    by simp
qed

text \<open>
  C8, as the code has it. A scenario name that the table of scenarios does not hold is
  no error: the run is the run of the Base scenario.
\<close>

theorem unknown_scenario_runs_base:
  "scenarios s = None \<Longrightarrow> runSimulation s N t out = runSimulation ''Base'' N t out"
  by (simp add: runSimulation_def start_context_unknown start_context_Base_initial)

theorem unknown_scenario_runs_base_witness:
  "scenarios ''LowDemand'' = None \<and>
   runSimulation ''LowDemand'' default_maxIterations default_threshold [] =
     runSimulation ''Base'' default_maxIterations default_threshold []"
proof -
  have n: "scenarios ''LowDemand'' = None"
    by (simp add: scenarios_def)
  from unknown_scenario_runs_base [OF n] n show ?thesis
    by simp
qed

text \<open>
  The claim C8 itself fails: the name \<^verbatim>\<open>Recession\<close> is no scenario, and the run with
  it starts from the Base inputs and returns the result of the Base run.
\<close>

theorem unknown_scenario_no_error:
  "scenarios ''Recession'' = None \<and>
   start_context ''Recession'' = base_0 \<and>
   runSimulation ''Recession'' default_maxIterations default_threshold [] =
     (base_6, [Converged_in 6])"
proof -
  have n: "scenarios ''Recession'' = None"
    by (simp add: scenarios_def)
  have s: "start_context ''Recession'' = base_0"
    using start_context_unknown [OF n] start_context_Base start_context_Base_initial by simp
  have "runSimulation ''Recession'' default_maxIterations default_threshold [] =
      (base_6, [Converged_in 6])"
    using loop_Base [of 94 "[]"] by (simp add: runSimulation_def s default_maxIterations_def)
  with n s show ?thesis
    by simp
qed

text \<open>
  C9. For a scenario name, a cap and a threshold there is one context and one list of
  printed lines such that every invocation, whatever was printed before it, returns this
  context and prints these lines.
\<close>

theorem run_deterministic:
  "\<exists>result printed. \<forall>out. runSimulation s N t out = (result, out @ printed)"
proof (intro exI allI)
  fix out
  show "runSimulation s N t out =
      (fst (runSimulation s N t []), out @ snd (runSimulation s N t []))"
    unfolding runSimulation_def by (rule loop_console)
qed

text \<open>
  C10. A property that is not one of the four calculated attributes has in the returned
  context the value it had in the context the run started from; so materialCost,
  energyCost and transportCost keep their resolved values.
\<close>

theorem inputs_unchanged:
  "k \<notin> set calculated_attributes \<Longrightarrow>
   fst (runSimulation s N t out) k = start_context s k"
  unfolding runSimulation_def by (rule loop_frame)

theorem inputs_unchanged_witness:
  "''materialCost'' \<notin> set calculated_attributes \<and>
   ''energyCost'' \<notin> set calculated_attributes \<and>
   ''transportCost'' \<notin> set calculated_attributes \<and>
   fst (runSimulation ''HighEnergyPrices'' default_maxIterations default_threshold [])
     ''materialCost'' = Some (Fin 120) \<and>
   fst (runSimulation ''HighEnergyPrices'' default_maxIterations default_threshold [])
     ''energyCost'' = Some (Fin 90) \<and>
   fst (runSimulation ''HighEnergyPrices'' default_maxIterations default_threshold [])
     ''transportCost'' = Some (Fin 40)"
proof -
  have m: "''materialCost'' \<notin> set calculated_attributes"
    and e: "''energyCost'' \<notin> set calculated_attributes"
    and t: "''transportCost'' \<notin> set calculated_attributes"
    by (simp_all add: calculated_attributes_def)
  have s: "start_context ''HighEnergyPrices'' ''materialCost'' = Some (Fin 120)"
    "start_context ''HighEnergyPrices'' ''energyCost'' = Some (Fin 90)"
    "start_context ''HighEnergyPrices'' ''transportCost'' = Some (Fin 40)"
    unfolding start_context_HighEnergyPrices by (simp_all add: ctx_of_def)
  from inputs_unchanged [OF m] inputs_unchanged [OF e] inputs_unchanged [OF t] m e t s
  show ?thesis
    by simp
qed

end
